theory Spec2Isabelle
  imports Main
begin

section \<open>Python strings and the library functions the module calls\<close>

text \<open>
  Strings are byte strings: a \<^typ>\<open>char\<close> is one byte, a text with characters beyond
  ASCII is its UTF-8 encoding (what \<^verbatim>\<open>quote\<close> percent-encodes on Python 3, and what
  a Python 2 byte string holds). The flag \<open>py2\<close> is \<^verbatim>\<open>six.PY2\<close>: the module runs on
  both interpreters and tests the flag itself (lines 228 and 296).
\<close>

text \<open>\<^verbatim>\<open>s.strip('/')\<close>: every leading and every trailing slash is removed.\<close>

definition strip_slash :: "string \<Rightarrow> string" where
  "strip_slash s =
     rev (dropWhile (\<lambda>c. c = CHR ''/'') (rev (dropWhile (\<lambda>c. c = CHR ''/'') s)))"

text \<open>\<^verbatim>\<open>s.replace(old, new)\<close> where \<open>old\<close> is a single character.\<close>

definition replace_char :: "char \<Rightarrow> string \<Rightarrow> string \<Rightarrow> string" where
  "replace_char old new s = concat (map (\<lambda>c. if c = old then new else [c]) s)"

text \<open>\<^verbatim>\<open>s.startswith(p)\<close>.\<close>

definition startswith :: "string \<Rightarrow> string \<Rightarrow> bool" where
  "startswith s p = (take (length p) s = p)"

text \<open>\<^verbatim>\<open>sep.join(xs)\<close>.\<close>

fun join :: "string \<Rightarrow> string list \<Rightarrow> string" where
  "join sep [] = []"
| "join sep [x] = x"
| "join sep (x # y # ys) = x @ sep @ join sep (y # ys)"

text \<open>
  \<^verbatim>\<open>urllib.parse.quote(s, safe)\<close>: a byte that is a letter, a digit, one of \<^verbatim>\<open>_.-\<close>
  (and \<^verbatim>\<open>~\<close> on Python 3), or listed in \<open>safe\<close> is kept; every other byte becomes
  \<^verbatim>\<open>%XX\<close> with two upper-case hexadecimal digits.
\<close>

definition hex_digit :: "nat \<Rightarrow> char" where
  "hex_digit n = ''0123456789ABCDEF'' ! n"

definition percent :: "char \<Rightarrow> string" where
  "percent c =
     [CHR ''%'', hex_digit ((of_char c :: nat) div 16), hex_digit ((of_char c :: nat) mod 16)]"

definition always_safe :: "bool \<Rightarrow> char \<Rightarrow> bool" where
  "always_safe py2 c =
     (c \<in> set ''ABCDEFGHIJKLMNOPQRSTUVWXYZabcdefghijklmnopqrstuvwxyz0123456789_.-''
      \<or> (\<not> py2 \<and> c = CHR ''~''))"

definition quote_char :: "bool \<Rightarrow> string \<Rightarrow> char \<Rightarrow> string" where
  "quote_char py2 safe c = (if always_safe py2 c \<or> c \<in> set safe then [c] else percent c)"

definition quote :: "bool \<Rightarrow> string \<Rightarrow> string \<Rightarrow> string" where
  "quote py2 safe s = concat (map (quote_char py2 safe) s)"

text \<open>
  \<^verbatim>\<open>quote_plus(s)\<close>, with its default \<^verbatim>\<open>safe=''\<close>: a string without a space is
  quoted as it is; otherwise the space is kept by \<^verbatim>\<open>quote\<close> and then replaced by
  \<^verbatim>\<open>+\<close>.
\<close>

definition quote_plus :: "bool \<Rightarrow> string \<Rightarrow> string" where
  "quote_plus py2 s =
     (if CHR '' '' \<in> set s then replace_char (CHR '' '') ''+'' (quote py2 '' '' s)
      else quote py2 [] s)"

text \<open>
  \<^verbatim>\<open>urlencode(params)\<close> on a dict of strings: each pair becomes
  \<^verbatim>\<open>quote_plus(k) + '=' + quote_plus(v)\<close>, and the pairs are joined by \<^verbatim>\<open>&\<close>. The
  dict is given as the list of its items in iteration order.
\<close>

definition urlencode :: "bool \<Rightarrow> (string \<times> string) list \<Rightarrow> string" where
  "urlencode py2 params =
     join ''&'' (map (\<lambda>(k, v). quote_plus py2 k @ ''='' @ quote_plus py2 v) params)"

section \<open>The URL encoders (lines 147 to 161)\<close>

text \<open>
  \<^verbatim>\<open>vmware_path(datastore, datacenter, path)\<close>. \<^verbatim>\<open>quote\<close> is called with its default
  \<^verbatim>\<open>safe='/'\<close>. The test of line 153 is kept although the path always starts with a
  slash there. The dict \<^verbatim>\<open>params\<close> receives \<^verbatim>\<open>dsName\<close> and then \<^verbatim>\<open>dcPath\<close>. Python 3
  (3.7 and later) iterates it in that order. CPython 2 iterates its hash table of
  eight slots: both keys hash to slot 4 (string hashing without randomisation, its
  default), \<^verbatim>\<open>dsName\<close> takes it and \<^verbatim>\<open>dcPath\<close> is moved to slot 1 by the probe
  sequence, so \<^verbatim>\<open>dcPath\<close> comes first there.
\<close>

definition vmware_path :: "bool \<Rightarrow> string \<Rightarrow> string \<Rightarrow> string \<Rightarrow> string" where
  "vmware_path py2 datastore datacenter path =
     (let path1 = ''/folder/'' @ quote py2 ''/'' (strip_slash path);
          datacenter1 = replace_char (CHR ''&'') ''%26'' datacenter;
          path2 = (if \<not> startswith path1 ''/'' then ''/'' @ path1 else path1);
          params = [(''dsName'', datastore)];
          params1 =
            (if datacenter1 \<noteq> [] then
               (if py2 then (''dcPath'', datacenter1) # params
                else params @ [(''dcPath'', datacenter1)])
             else params)
      in path2 @ ''?'' @ urlencode py2 params1)"

text \<open>\<^verbatim>\<open>vmware_path2(datastore, path)\<close>: the file specifier of the management API.\<close>

definition vmware_path2 :: "bool \<Rightarrow> string \<Rightarrow> string \<Rightarrow> string" where
  "vmware_path2 py2 datastore path =
     ''['' @ datastore @ ''] '' @ quote py2 ''/'' (strip_slash path)"

section \<open>Exceptions and the built-in \<^verbatim>\<open>int\<close>\<close>

text \<open>The exceptions that the module itself can raise and never catches.\<close>

datatype py_exception = TypeError | ValueError | IndexError

datatype py_value = PyInt int | PyStr string

text \<open>
  An exception raised by a collaborator (\<^verbatim>\<open>open_url\<close>, \<^verbatim>\<open>wait_for_task\<close>): its
  \<^verbatim>\<open>args\<close> tuple and its text, which is what \<^verbatim>\<open>to_native(e)\<close> returns.
\<close>

record exn =
  exn_args :: "py_value list"
  exn_text :: string

text \<open>
  The expression \<^verbatim>\<open>e[0]\<close> on an exception. Python 2 reads \<^verbatim>\<open>e.args[0]\<close> and raises
  IndexError when \<^verbatim>\<open>args\<close> is empty; on Python 3 an exception is not subscriptable and
  the expression raises TypeError.
\<close>

definition exn_item0 :: "bool \<Rightarrow> exn \<Rightarrow> py_exception + py_value" where
  "exn_item0 py2 e =
     (if py2 then (case exn_args e of [] \<Rightarrow> Inl IndexError | a # _ \<Rightarrow> Inr a)
      else Inl TypeError)"

text \<open>
  Whitespace that \<^verbatim>\<open>int\<close> skips around a literal: the six ASCII characters
  \<^verbatim>\<open>0x09\<close> to \<^verbatim>\<open>0x0d\<close> and \<^verbatim>\<open>0x20\<close>; on Python 3, where a header value is
  decoded as Latin-1, also \<^verbatim>\<open>0x85\<close> and \<^verbatim>\<open>0xa0\<close>. (The separators \<^verbatim>\<open>0x1c\<close> to
  \<^verbatim>\<open>0x1f\<close> are not skipped: \<^verbatim>\<open>int\<close> raises ValueError on them.)
\<close>

definition py_space :: "bool \<Rightarrow> char \<Rightarrow> bool" where
  "py_space py2 c =
     (let n = (of_char c :: nat)
      in (9 \<le> n \<and> n \<le> 13) \<or> n = 32
         \<or> (\<not> py2 \<and> (n = 133 \<or> n = 160)))"

definition is_digit :: "char \<Rightarrow> bool" where
  "is_digit c = (48 \<le> (of_char c :: nat) \<and> (of_char c :: nat) \<le> 57)"

definition digit_val :: "char \<Rightarrow> int" where
  "digit_val c = int (of_char c) - 48"

text \<open>
  The digits of a literal: not empty, all decimal; Python 3 also allows single
  underscores between two digits.
\<close>

fun no_double_underscore :: "string \<Rightarrow> bool" where
  "no_double_underscore (a # b # cs) =
     (\<not> (a = CHR ''_'' \<and> b = CHR ''_'') \<and> no_double_underscore (b # cs))"
| "no_double_underscore cs = True"

definition valid_digits :: "bool \<Rightarrow> string \<Rightarrow> bool" where
  "valid_digits py2 ds =
     (ds \<noteq> [] \<and>
      (if py2 then list_all is_digit ds
       else list_all (\<lambda>c. is_digit c \<or> c = CHR ''_'') ds
            \<and> is_digit (hd ds) \<and> is_digit (last ds) \<and> no_double_underscore ds))"

definition digits_value :: "string \<Rightarrow> int" where
  "digits_value ds = foldl (\<lambda>acc c. 10 * acc + digit_val c) 0 (filter is_digit ds)"

text \<open>
  \<^verbatim>\<open>int(x)\<close> for the value of \<^verbatim>\<open>headers.get('content-length', None)\<close>: TypeError on
  \<^verbatim>\<open>None\<close>; on a string, the whitespace around it is stripped, an optional sign is
  read, and anything but a decimal literal raises ValueError. (The interpreter's limit
  on the number of digits of a literal is left out.)
\<close>

definition py_int :: "bool \<Rightarrow> string option \<Rightarrow> py_exception + int" where
  "py_int py2 x =
     (case x of
        None \<Rightarrow> Inl TypeError
      | Some s \<Rightarrow>
          (let t = rev (dropWhile (py_space py2) (rev (dropWhile (py_space py2) s)));
               neg = (t \<noteq> [] \<and> hd t = CHR ''-'');
               ds = (if t \<noteq> [] \<and> (hd t = CHR ''-'' \<or> hd t = CHR ''+'') then tl t else t)
           in if valid_digits py2 ds
              then Inr (if neg then - digits_value ds else digits_value ds)
              else Inl ValueError))"

section \<open>Parameters, responses and results\<close>

text \<open>
  The desired state: \<^verbatim>\<open>AnsibleModule\<close> accepts the four choices of line 186 only, so
  the chain of tests in \<^verbatim>\<open>main\<close> is exhaustive.
\<close>

datatype state = Absent | Directory | File | Touch

record params =
  host :: string
  username :: string
  password :: string
  datacenter :: string
  datastore :: string
  path :: string
  state :: state
  timeout :: int
  validate_certs :: bool

text \<open>
  An HTTP response, returned by \<^verbatim>\<open>open_url\<close> or raised by it as an HTTPError (line
  221 treats both alike): \<^verbatim>\<open>getcode()\<close>, \<^verbatim>\<open>msg\<close> and the header lines in the order and
  with the names as the server sent them. The names are ASCII.
\<close>

record response =
  code :: int
  msg :: string
  headers :: "(string \<times> string) list"

text \<open>
  What a call of \<^verbatim>\<open>open_url\<close> does, by the clause of the \<^verbatim>\<open>try\<close> statement that
  takes it: a response, a \<^verbatim>\<open>socket.error\<close>, or any other \<^verbatim>\<open>Exception\<close>.
\<close>

datatype http_outcome = Response response | SocketError exn | OtherError exn

text \<open>\<^verbatim>\<open>name.lower()\<close> on an ASCII name.\<close>

definition lower_char :: "char \<Rightarrow> char" where
  "lower_char c =
     (case map_of (zip ''ABCDEFGHIJKLMNOPQRSTUVWXYZ'' ''abcdefghijklmnopqrstuvwxyz'') c of
        None \<Rightarrow> c
      | Some d \<Rightarrow> d)"

definition str_lower :: "string \<Rightarrow> string" where
  "str_lower s = map lower_char s"

text \<open>
  \<^verbatim>\<open>r.headers.get(name, None)\<close>: the names are compared without regard to case. Of
  several lines with the name, Python 3 returns the value of the first; Python 2 has
  stored the values joined by a comma and a space.
\<close>

definition headers_get :: "bool \<Rightarrow> (string \<times> string) list \<Rightarrow> string \<Rightarrow> string option" where
  "headers_get py2 hs name =
     (case map snd (filter (\<lambda>(k, v). str_lower k = str_lower name) hs) of
        [] \<Rightarrow> None
      | v # vs \<Rightarrow> Some (if py2 then join '', '' (v # vs) else v))"

text \<open>
  \<^verbatim>\<open>dict(r.headers)\<close>, as an association list (a later pair with the key of an earlier
  one is not in the dict; the order of a dict is not modelled). Python 3 keeps each name
  as it was sent and gives it the value that \<^verbatim>\<open>get\<close> returns for it; Python 2 has one
  key for each name, in lower case.
\<close>

definition headers_dict :: "bool \<Rightarrow> (string \<times> string) list \<Rightarrow> (string \<times> string) list" where
  "headers_dict py2 hs =
     (if py2 then
        map (\<lambda>k. (k, case headers_get True hs k of None \<Rightarrow> [] | Some v \<Rightarrow> v))
            (remdups (map (\<lambda>(k, v). str_lower k) hs))
      else
        map (\<lambda>(k, v). (k, case headers_get False hs k of None \<Rightarrow> v | Some w \<Rightarrow> w)) hs)"

text \<open>
  The world of one invocation: the interpreter, the check mode, and what each remote
  call does when it is made. \<open>delete_outcome\<close> and \<open>mkdir_outcome\<close> are the exception
  that \<^verbatim>\<open>wait_for_task\<close> raises, or \<open>None\<close> when it returns. The model starts after
  the constructor of line 214 has returned: its login to vCenter and its lookup of the
  datacenter, which are made in check mode too, are not part of the model.
\<close>

record env =
  PY2 :: bool
  check_mode :: bool
  head_outcome :: http_outcome
  put_outcome :: http_outcome
  delete_outcome :: "exn option"
  mkdir_outcome :: "exn option"

text \<open>
  The dict \<^verbatim>\<open>result\<close> of line 206. \<open>r_reason = None\<close> is a dict without the key
  \<^verbatim>\<open>reason\<close>; \<open>r_size = None\<close> and \<open>r_status = None\<close> are the Python value \<^verbatim>\<open>None\<close>.
\<close>

record result =
  r_path :: string
  r_size :: "int option"
  r_state :: state
  r_status :: "int option"
  r_url :: string
  r_reason :: "string option"

text \<open>The \<^verbatim>\<open>errno\<close> argument of \<^verbatim>\<open>fail_json\<close>: \<^verbatim>\<open>None\<close>, \<^verbatim>\<open>e[0]\<close> or \<^verbatim>\<open>dir(e)\<close>.\<close>

datatype errno = ErrnoNone | ErrnoArg py_value | ErrnoDir

text \<open>
  The arguments of one \<^verbatim>\<open>fail_json\<close> call; \<open>None\<close> is an argument that the call does
  not pass. A \<^verbatim>\<open>reason\<close> argument is stored in the payload's \<open>r_reason\<close>: the dict has
  no such key wherever the argument is passed.
\<close>

record failure =
  f_msg :: string
  f_errno :: "errno option"
  f_headers :: "(string \<times> string) list option"
  f_payload :: result

text \<open>
  How an invocation ends: \<^verbatim>\<open>exit_json(changed=c, **result)\<close>, a \<^verbatim>\<open>fail_json\<close> call,
  or an exception that nothing catches.
\<close>

datatype outcome = ExitJson bool result | FailJson failure | Unhandled py_exception

text \<open>
  The remote calls that \<^verbatim>\<open>main\<close> makes from line 217 on, in order. The traffic of the
  constructor of line 214 is not among them.
\<close>

datatype call = Head string | Put string | DeleteFile string | MakeDirectory string

section \<open>\<^verbatim>\<open>main\<close> (lines 177 to 306)\<close>

text \<open>
  \<^verbatim>\<open>module.fail_json(msg=to_native(e), errno=e[0], reason=to_native(e), **result)\<close>, the
  handler of lines 224, 250, 262, 292 and 294. Evaluating the argument \<^verbatim>\<open>e[0]\<close> may
  raise, and then \<^verbatim>\<open>fail_json\<close> is never called.
\<close>

definition fail_exn :: "bool \<Rightarrow> exn \<Rightarrow> result \<Rightarrow> outcome" where
  "fail_exn py2 e result =
     (case exn_item0 py2 e of
        Inl x \<Rightarrow> Unhandled x
      | Inr a \<Rightarrow>
          FailJson \<lparr>f_msg = exn_text e, f_errno = Some (ErrnoArg a), f_headers = None,
                    f_payload = result\<lparr>r_reason := Some (exn_text e)\<rparr>\<rparr>)"

text \<open>Lines 203 and 204. In a message below, \<open>CHR 0x27\<close> is the single quote.\<close>

definition main_url :: "params \<Rightarrow> env \<Rightarrow> string" where
  "main_url p ev =
     ''https://'' @ host p @ vmware_path (PY2 ev) (datastore p) (datacenter p) (path p)"

text \<open>Lines 206 to 212.\<close>

definition main_result :: "params \<Rightarrow> env \<Rightarrow> result" where
  "main_result p ev =
     \<lparr>r_path = path p, r_size = None, r_state = state p, r_status = None,
      r_url = main_url p ev, r_reason = None\<rparr>"

text \<open>
  Lines 217 to 240, the probe: the HEAD request and the reading of its status. It ends
  the invocation (\<open>Inl\<close>) or goes on to the dispatch with \<^verbatim>\<open>exists\<close>, \<^verbatim>\<open>status\<close> and
  the updated \<^verbatim>\<open>result\<close>.
\<close>

definition main_probe :: "params \<Rightarrow> env \<Rightarrow> outcome + (bool \<times> int \<times> result)" where
  "main_probe p ev =
     (let result = main_result p ev
      in case head_outcome ev of
           SocketError e \<Rightarrow> Inl (fail_exn (PY2 ev) e result)
         | OtherError e \<Rightarrow>
             Inl (FailJson \<lparr>f_msg = exn_text e, f_errno = Some ErrnoDir, f_headers = None,
                            f_payload = result\<lparr>r_reason := Some (exn_text e)\<rparr>\<rparr>)
         | Response r \<Rightarrow>
             (let status = code r
              in if status = 200 then
                   (case py_int (PY2 ev) (headers_get (PY2 ev) (headers r) ''content-length'') of
                      Inl x \<Rightarrow> Inl (Unhandled x)
                    | Inr n \<Rightarrow> Inr (True, status, result\<lparr>r_size := Some n\<rparr>))
                 else if status = 404 then Inr (False, status, result)
                 else
                   Inl (FailJson
                     \<lparr>f_msg = ''Failed to query for file '' @ [CHR 0x27] @ path p @ [CHR 0x27],
                      f_errno = Some ErrnoNone,
                      f_headers = Some (headers_dict (PY2 ev) (headers r)),
                      f_payload = result\<lparr>r_reason := Some (msg r), r_status := Some status\<rparr>\<rparr>)))"

text \<open>
  Lines 242 to 306, the dispatch on the desired state, with the remote calls it makes
  after the HEAD request.
\<close>

definition main_dispatch ::
  "params \<Rightarrow> env \<Rightarrow> bool \<Rightarrow> int \<Rightarrow> result \<Rightarrow> outcome \<times> call list" where
  "main_dispatch p ev exists status result =
     (case state p of
        Absent \<Rightarrow>
          if \<not> exists then (ExitJson False result, [])
          else if \<not> check_mode ev then
            (case delete_outcome ev of
               Some e \<Rightarrow> (fail_exn (PY2 ev) e result,
                           [DeleteFile (vmware_path2 (PY2 ev) (datastore p) (path p))])
             | None \<Rightarrow> (ExitJson True result,
                         [DeleteFile (vmware_path2 (PY2 ev) (datastore p) (path p))]))
          else (ExitJson True result, [])
      | Directory \<Rightarrow>
          if exists then (ExitJson False result, [])
          else if \<not> check_mode ev then
            (case mkdir_outcome ev of
               Some e \<Rightarrow> (fail_exn (PY2 ev) e result,
                           [MakeDirectory (vmware_path2 (PY2 ev) (datastore p) (path p))])
             | None \<Rightarrow> (ExitJson True result,
                         [MakeDirectory (vmware_path2 (PY2 ev) (datastore p) (path p))]))
          else (ExitJson True result, [])
      | File \<Rightarrow>
          if \<not> exists then
            (FailJson \<lparr>f_msg = ''File '' @ [CHR 0x27] @ path p @ [CHR 0x27] @ '' is absent, cannot continue'',
                       f_errno = None, f_headers = None,
                       f_payload = result\<lparr>r_state := Absent, r_status := Some status\<rparr>\<rparr>, [])
          else (ExitJson False (result\<lparr>r_status := Some status\<rparr>), [])
      | Touch \<Rightarrow>
          if exists then (ExitJson False (result\<lparr>r_state := File\<rparr>), [])
          else if check_mode ev then
            (ExitJson True (result\<lparr>r_reason := Some ''Created'', r_status := Some 201,
                                   r_size := Some 0, r_state := File\<rparr>), [])
          else
            (case put_outcome ev of
               SocketError e \<Rightarrow> (fail_exn (PY2 ev) e result, [Put (r_url result)])
             | OtherError e \<Rightarrow> (fail_exn (PY2 ev) e result, [Put (r_url result)])
             | Response r \<Rightarrow>
                 (let result1 = result\<lparr>r_reason := Some (msg r), r_status := Some (code r)\<rparr>
                  in if code r \<noteq> 201 then
                       (FailJson \<lparr>f_msg = ''Failed to touch '' @ [CHR 0x27] @ path p @ [CHR 0x27],
                                  f_errno = Some ErrnoNone,
                                  f_headers = Some (headers_dict (PY2 ev) (headers r)),
                                  f_payload = result1\<rparr>, [Put (r_url result)])
                     else
                       (ExitJson True (result1\<lparr>r_size := Some 0, r_state := File\<rparr>),
                        [Put (r_url result)]))))"

definition main :: "params \<Rightarrow> env \<Rightarrow> outcome \<times> call list" where
  "main p ev =
     (case main_probe p ev of
        Inl out \<Rightarrow> (out, [Head (main_url p ev)])
      | Inr (exists, status, result) \<Rightarrow>
          (let (out, calls) = main_dispatch p ev exists status result
           in (out, Head (main_url p ev) # calls)))"

section \<open>Evaluation rules and facts about the two halves of \<^verbatim>\<open>main\<close>\<close>

lemmas url_eval =
  main_url_def vmware_path_def vmware_path2_def quote_def quote_char_def always_safe_def
  percent_def hex_digit_def strip_slash_def replace_char_def startswith_def urlencode_def
  quote_plus_def

lemmas int_eval =
  py_int_def py_space_def is_digit_def digit_val_def valid_digits_def digits_value_def

lemmas header_eval =
  headers_get_def headers_dict_def str_lower_def lower_char_def

lemma main_of_probe:
  "main_probe p ev = Inr (ex, st, res) \<Longrightarrow>
   main p ev = (fst (main_dispatch p ev ex st res),
                Head (main_url p ev) # snd (main_dispatch p ev ex st res))"
  by (simp add: main_def split: prod.splits)

lemma main_probe_404:
  "head_outcome ev = Response r \<Longrightarrow> code r = 404 \<Longrightarrow>
   main_probe p ev = Inr (False, 404, main_result p ev)"
  by (simp add: main_probe_def)

lemma main_probe_Inr:
  "main_probe p ev = Inr (ex, st, res) \<Longrightarrow>
   r_path res = path p \<and> r_url res = main_url p ev \<and> r_state res = state p
   \<and> r_status res = None \<and> r_reason res = None"
  by (auto simp: main_probe_def main_result_def Let_def
           split: http_outcome.splits sum.splits if_splits)

lemma main_probe_Inl_Exit:
  "main_probe p ev \<noteq> Inl (ExitJson c res)"
  by (auto simp: main_probe_def main_result_def Let_def fail_exn_def
           split: http_outcome.splits sum.splits if_splits)

lemma main_probe_Inl_Fail:
  "main_probe p ev = Inl (FailJson f) \<Longrightarrow>
   r_path (f_payload f) = path p \<and> r_url (f_payload f) = main_url p ev"
  by (auto simp: main_probe_def main_result_def Let_def fail_exn_def
           split: http_outcome.splits sum.splits if_splits)

lemma main_dispatch_Exit:
  "r_path res = path p \<Longrightarrow> r_url res = u \<Longrightarrow>
   fst (main_dispatch p ev ex st res) = ExitJson c res' \<Longrightarrow>
   r_path res' = path p \<and> r_url res' = u"
  by (cases "state p")
     (auto simp: main_dispatch_def fail_exn_def Let_def
           split: if_splits option.splits http_outcome.splits sum.splits)

lemma main_dispatch_Fail:
  "r_path res = path p \<Longrightarrow> r_url res = u \<Longrightarrow>
   fst (main_dispatch p ev ex st res) = FailJson f \<Longrightarrow>
   r_path (f_payload f) = path p \<and> r_url (f_payload f) = u"
  by (cases "state p")
     (auto simp: main_dispatch_def fail_exn_def Let_def
           split: if_splits option.splits http_outcome.splits sum.splits)

section \<open>Facts about the encoders\<close>

lemma hex_digit_mem: "n < 16 \<Longrightarrow> hex_digit n \<in> set ''0123456789ABCDEF''"
  unfolding hex_digit_def by (rule nth_mem) simp

lemma of_char_div_16: "(of_char (c::char) :: nat) div 16 < 16"
proof -
  have "(of_char c :: nat) < 256" by (rule nat_of_char_less_256)
  then show ?thesis by arith
qed

lemma percent_set:
  "set (percent c) \<subseteq> set ''%0123456789ABCDEF''"
  using hex_digit_mem [OF of_char_div_16 [of c]]
        hex_digit_mem [of "(of_char c :: nat) mod 16"]
  by (simp add: percent_def)

lemma percent_no_space: "CHR '' '' \<notin> set (percent c)"
  using percent_set [of c] by auto

lemma percent_no_question: "CHR ''?'' \<notin> set (percent c)"
  using percent_set [of c] by auto

lemma replace_char_append:
  "replace_char a new (xs @ ys) = replace_char a new xs @ replace_char a new ys"
  by (simp add: replace_char_def)

lemma replace_char_concat:
  "replace_char a new (concat xss) = concat (map (replace_char a new) xss)"
  by (induction xss) (simp_all add: replace_char_append, simp add: replace_char_def)

lemma replace_char_absent: "a \<notin> set xs \<Longrightarrow> replace_char a new xs = xs"
  by (induction xs) (auto simp: replace_char_def)

lemma always_safe_not_space: "\<not> always_safe py2 (CHR '' '')"
  by (simp add: always_safe_def)

lemma quote_plus_single:
  "quote_plus py2 [c] = (if c = CHR '' '' then ''+'' else quote_char py2 [] c)"
  by (simp add: quote_plus_def quote_def quote_char_def replace_char_def always_safe_not_space)

lemma replace_quote_char_space:
  "replace_char (CHR '' '') ''+'' (quote_char py2 '' '' c) = quote_plus py2 [c]"
proof (cases "c = CHR '' ''")
  case True
  then show ?thesis
    by (simp add: quote_plus_single quote_char_def replace_char_def)
next
  case False
  have "CHR '' '' \<notin> set (quote_char py2 [] c)"
    using False percent_no_space by (simp add: quote_char_def)
  moreover have "quote_char py2 '' '' c = quote_char py2 [] c"
    using False by (simp add: quote_char_def)
  ultimately show ?thesis
    using False by (simp add: quote_plus_single replace_char_absent)
qed

lemma quote_plus_map:
  "quote_plus py2 s = concat (map (\<lambda>c. quote_plus py2 [c]) s)"
proof (cases "CHR '' '' \<in> set s")
  case True
  then have "quote_plus py2 s = replace_char (CHR '' '') ''+'' (quote py2 '' '' s)"
    by (simp add: quote_plus_def)
  also have "\<dots> = concat (map (\<lambda>c. replace_char (CHR '' '') ''+'' (quote_char py2 '' '' c)) s)"
    by (simp add: quote_def replace_char_concat comp_def)
  finally show ?thesis by (simp add: replace_quote_char_space)
next
  case False
  then have "map (quote_char py2 []) s = map (\<lambda>c. quote_plus py2 [c]) s"
    by (auto simp: quote_plus_single)
  moreover have "quote_plus py2 s = concat (map (quote_char py2 []) s)"
    using False by (simp add: quote_plus_def quote_def)
  ultimately show ?thesis by (simp only:)
qed

lemma quote_plus_ampersand: "quote_plus py2 ''&'' = ''%26''"
  by (simp add: quote_plus_def quote_def quote_char_def always_safe_def percent_def hex_digit_def)

lemma quote_plus_percent_26: "quote_plus py2 ''%26'' = ''%2526''"
  by (simp add: quote_plus_def quote_def quote_char_def always_safe_def percent_def hex_digit_def)

lemma quote_plus_replaced:
  "quote_plus py2 (replace_char (CHR ''&'') ''%26'' s) =
     concat (map (\<lambda>c. if c = CHR ''&'' then ''%2526'' else quote_plus py2 [c]) s)"
proof (induction s)
  case Nil
  show ?case by (simp add: replace_char_def quote_plus_def quote_def)
next
  case (Cons c s)
  have split: "quote_plus py2 (xs @ ys) = quote_plus py2 xs @ quote_plus py2 ys" for xs ys
    by (simp add: quote_plus_map [of py2 "xs @ ys"] quote_plus_map [of py2 xs]
                  quote_plus_map [of py2 ys])
  have "replace_char (CHR ''&'') ''%26'' (c # s) =
          (if c = CHR ''&'' then ''%26'' else [c]) @ replace_char (CHR ''&'') ''%26'' s"
    by (simp add: replace_char_def)
  then show ?case
    using Cons.IH by (simp add: split quote_plus_percent_26)
qed

lemma replace_char_Nil_iff: "new \<noteq> [] \<Longrightarrow> replace_char a new s = [] \<longleftrightarrow> s = []"
  by (cases s) (simp_all add: replace_char_def)

lemma quote_plus_dsName: "quote_plus py2 ''dsName'' = ''dsName''"
  by (simp add: quote_plus_def quote_def quote_char_def always_safe_def)

lemma quote_plus_dcPath: "quote_plus py2 ''dcPath'' = ''dcPath''"
  by (simp add: quote_plus_def quote_def quote_char_def always_safe_def)

lemma quote_char_no_question: "CHR ''?'' \<notin> set (quote_char py2 ''/'' c)"
proof (cases "always_safe py2 c \<or> c \<in> set ''/''")
  case True
  then have "c \<noteq> CHR ''?''" by (auto simp: always_safe_def)
  with True show ?thesis by (simp add: quote_char_def)
next
  case False
  then show ?thesis using percent_no_question by (simp add: quote_char_def)
qed

lemma quote_no_question: "CHR ''?'' \<notin> set (quote py2 ''/'' s)"
  using quote_char_no_question by (induction s) (simp_all add: quote_def)

lemma vmware_path_split:
  "\<exists>query. vmware_path py2 ds dc pth =
      (''/folder/'' @ quote py2 ''/'' (strip_slash pth)) @ CHR ''?'' # query"
  by (simp add: vmware_path_def Let_def startswith_def)

lemma quote_slash_map:
  "quote py2 ''/'' s =
     concat (map (\<lambda>c. if c = CHR ''/'' then ''/'' else quote py2 [] [c]) s)"
proof -
  have e: "quote_char py2 ''/'' = (\<lambda>c. if c = CHR ''/'' then ''/'' else quote py2 [] [c])"
    by (rule ext) (simp add: quote_def quote_char_def)
  have "quote py2 ''/'' s = concat (map (quote_char py2 ''/'') s)"
    by (simp add: quote_def)
  then show ?thesis by (simp only: e)
qed

lemma takeWhile_until: "a \<notin> set xs \<Longrightarrow> takeWhile (\<lambda>c. c \<noteq> a) (xs @ a # ys) = xs"
  by (induction xs) auto

lemma takeWhile_eq_replicate:
  "takeWhile (\<lambda>c. c = a) xs = replicate (length (takeWhile (\<lambda>c. c = a) xs)) a"
proof -
  have "\<forall>y \<in> set (takeWhile (\<lambda>c. c = a) xs). y = a"
    by (auto dest: set_takeWhileD)
  then show ?thesis by (rule replicate_length_same [symmetric])
qed

lemma rev_dropWhile_split:
  "xs = rev (dropWhile P (rev xs)) @ rev (takeWhile P (rev xs))"
proof -
  have "rev xs = takeWhile P (rev xs) @ dropWhile P (rev xs)" by simp
  then have "rev (rev xs) = rev (takeWhile P (rev xs) @ dropWhile P (rev xs))"
    by (rule arg_cong)
  then show ?thesis by (simp only: rev_rev_ident rev_append)
qed

lemma strip_slash_tail:
  "dropWhile (\<lambda>c. c = CHR ''/'') s =
     strip_slash s @
     rev (takeWhile (\<lambda>c. c = CHR ''/'') (rev (dropWhile (\<lambda>c. c = CHR ''/'') s)))"
  unfolding strip_slash_def by (rule rev_dropWhile_split)

lemma strip_slash_decompose:
  "\<exists>m n. s = replicate m (CHR ''/'') @ strip_slash s @ replicate n (CHR ''/'')"
proof -
  let ?P = "\<lambda>c. c = CHR ''/''"
  let ?d = "dropWhile ?P s"
  let ?m = "length (takeWhile ?P s)"
  let ?n = "length (takeWhile ?P (rev ?d))"
  have a: "takeWhile ?P s = replicate ?m (CHR ''/'')"
    by (rule takeWhile_eq_replicate)
  have "takeWhile ?P (rev ?d) = replicate ?n (CHR ''/'')"
    by (rule takeWhile_eq_replicate)
  then have "rev (takeWhile ?P (rev ?d)) = rev (replicate ?n (CHR ''/''))"
    by (rule arg_cong)
  then have b: "rev (takeWhile ?P (rev ?d)) = replicate ?n (CHR ''/'')"
    by (simp only: rev_replicate)
  have "s = takeWhile ?P s @ ?d" by simp
  also have "?d = strip_slash s @ rev (takeWhile ?P (rev ?d))"
    by (rule strip_slash_tail)
  finally have "s = replicate ?m (CHR ''/'') @ strip_slash s @ replicate ?n (CHR ''/'')"
    using a b by (simp only:)
  then show ?thesis by (intro exI)
qed

lemma dropWhile_not_startswith: "\<not> startswith (dropWhile (\<lambda>c. c = a) xs) [a]"
proof (cases "dropWhile (\<lambda>c. c = a) xs")
  case Nil
  show ?thesis by (simp add: startswith_def Nil)
next
  case (Cons b bs)
  have "dropWhile (\<lambda>c. c = a) xs \<noteq> []" by (simp add: Cons)
  then have "\<not> (hd (dropWhile (\<lambda>c. c = a) xs) = a)" by (rule hd_dropWhile)
  then have "b \<noteq> a" by (simp add: Cons)
  then show ?thesis by (simp add: startswith_def Cons)
qed

lemma strip_slash_no_trailing: "\<not> startswith (rev (strip_slash s)) ''/''"
proof -
  have "rev (strip_slash s) =
      dropWhile (\<lambda>c. c = CHR ''/'') (rev (dropWhile (\<lambda>c. c = CHR ''/'') s))"
    by (simp add: strip_slash_def)
  then show ?thesis by (simp only: dropWhile_not_startswith not_False_eq_True)
qed

lemma strip_slash_no_leading: "\<not> startswith (strip_slash s) ''/''"
proof (cases "strip_slash s")
  case Nil
  then show ?thesis by (simp add: startswith_def)
next
  case (Cons a as)
  let ?P = "\<lambda>c. c = CHR ''/''"
  let ?d = "dropWhile ?P s"
  have d: "?d = (a # as) @ rev (takeWhile ?P (rev ?d))"
    using strip_slash_tail [of s] Cons by (simp only:)
  then have ne: "?d \<noteq> []" by (cases ?d) simp_all
  have "hd ?d = a" by (subst d) simp
  moreover have "\<not> ?P (hd ?d)" using ne by (rule hd_dropWhile)
  ultimately have "a \<noteq> CHR ''/''" by simp
  then show ?thesis using Cons by (simp add: startswith_def)
qed

section \<open>The state dispatch\<close>

text \<open>
  Claim C1, as amended. Once the probe has gone on to the dispatch: with the state
  \<open>absent\<close>, a path that does not exist gives \<open>changed = False\<close> and no call but the
  HEAD request; a path that exists gives \<open>changed = True\<close> without any further call
  in check mode, and outside check mode a delete is issued, with \<open>changed = True\<close> when
  it returns. With the state \<open>directory\<close>, an existing path gives \<open>changed = False\<close>;
  a missing one gives \<open>changed = True\<close> without a call in check mode, and outside
  check mode a mkdir is issued, with \<open>changed = True\<close> when it returns. The state
  \<open>file\<close> on an existing path gives \<open>changed = False\<close>, and so does \<open>touch\<close>, which
  reports the state \<open>file\<close>.
\<close>

theorem dispatch_reconciles:
  assumes "main_probe p ev = Inr (exists, status, res)"
  shows "(state p = Absent \<longrightarrow> \<not> exists \<longrightarrow>
            main p ev = (ExitJson False res, [Head (main_url p ev)]))
       \<and> (state p = Absent \<longrightarrow> exists \<longrightarrow> check_mode ev \<longrightarrow>
            main p ev = (ExitJson True res, [Head (main_url p ev)]))
       \<and> (state p = Absent \<longrightarrow> exists \<longrightarrow> \<not> check_mode ev \<longrightarrow>
            snd (main p ev) =
              [Head (main_url p ev),
               DeleteFile (vmware_path2 (PY2 ev) (datastore p) (path p))]
            \<and> (delete_outcome ev = None \<longrightarrow> fst (main p ev) = ExitJson True res))
       \<and> (state p = Directory \<longrightarrow> exists \<longrightarrow>
            main p ev = (ExitJson False res, [Head (main_url p ev)]))
       \<and> (state p = Directory \<longrightarrow> \<not> exists \<longrightarrow> check_mode ev \<longrightarrow>
            main p ev = (ExitJson True res, [Head (main_url p ev)]))
       \<and> (state p = Directory \<longrightarrow> \<not> exists \<longrightarrow> \<not> check_mode ev \<longrightarrow>
            snd (main p ev) =
              [Head (main_url p ev),
               MakeDirectory (vmware_path2 (PY2 ev) (datastore p) (path p))]
            \<and> (mkdir_outcome ev = None \<longrightarrow> fst (main p ev) = ExitJson True res))
       \<and> (state p = File \<longrightarrow> exists \<longrightarrow>
            main p ev = (ExitJson False (res\<lparr>r_status := Some status\<rparr>),
                         [Head (main_url p ev)]))
       \<and> (state p = Touch \<longrightarrow> exists \<longrightarrow>
            main p ev = (ExitJson False (res\<lparr>r_state := File\<rparr>),
                         [Head (main_url p ev)]))"
  unfolding main_of_probe [OF assms]
  by (simp add: main_dispatch_def split: option.split)

theorem dispatch_reconciles_witness:
  "main \<lparr>host = ''vc'', username = ''u'', password = ''pw'', datacenter = ''dc'',
          datastore = ''ds'', path = ''/a'', state = Absent, timeout = 10,
          validate_certs = True\<rparr>
        \<lparr>PY2 = False, check_mode = False,
         head_outcome = Response \<lparr>code = 200, msg = ''OK'',
                                  headers = [(''Content-Length'', ''12'')]\<rparr>,
         put_outcome = Response \<lparr>code = 201, msg = ''Created'', headers = []\<rparr>,
         delete_outcome = None, mkdir_outcome = None\<rparr>
   = (ExitJson True \<lparr>r_path = ''/a'', r_size = Some 12, r_state = Absent,
                     r_status = None,
                     r_url = ''https://vc/folder/a?dsName=ds&dcPath=dc'',
                     r_reason = None\<rparr>,
      [Head ''https://vc/folder/a?dsName=ds&dcPath=dc'', DeleteFile ''[ds] a''])"
proof -
  let ?p = "\<lparr>host = ''vc'', username = ''u'', password = ''pw'', datacenter = ''dc'',
          datastore = ''ds'', path = ''/a'', state = Absent, timeout = 10,
          validate_certs = True\<rparr>"
  let ?ev = "\<lparr>PY2 = False, check_mode = False,
         head_outcome = Response \<lparr>code = 200, msg = ''OK'',
                                  headers = [(''Content-Length'', ''12'')]\<rparr>,
         put_outcome = Response \<lparr>code = 201, msg = ''Created'', headers = []\<rparr>,
         delete_outcome = None, mkdir_outcome = None\<rparr>"
  let ?res = "\<lparr>r_path = ''/a'', r_size = Some 12, r_state = Absent,
                     r_status = None,
                     r_url = ''https://vc/folder/a?dsName=ds&dcPath=dc'',
                     r_reason = None\<rparr>"
  have pr: "main_probe ?p ?ev = Inr (True, 200, ?res)"
    by (simp add: main_probe_def main_result_def url_eval int_eval header_eval)
  have u: "main_url ?p ?ev = ''https://vc/folder/a?dsName=ds&dcPath=dc''"
    by (simp add: url_eval)
  have v: "vmware_path2 False ''ds'' ''/a'' = ''[ds] a''"
    by (simp add: url_eval)
  show ?thesis
    using dispatch_reconciles [OF pr] u v by (simp add: prod_eq_iff)
qed

text \<open>
  Claim C1 as it is stated fails in check mode: the state \<open>absent\<close> on an existing
  path reports \<open>changed = True\<close>, and no delete follows the HEAD request.
\<close>

theorem absent_check_mode_counterexample:
  "check_mode \<lparr>PY2 = False, check_mode = True,
         head_outcome = Response \<lparr>code = 200, msg = ''OK'',
                                  headers = [(''Content-Length'', ''12'')]\<rparr>,
         put_outcome = Response \<lparr>code = 201, msg = ''Created'', headers = []\<rparr>,
         delete_outcome = None, mkdir_outcome = None\<rparr>
   \<and> main_probe
        \<lparr>host = ''vc'', username = ''u'', password = ''pw'', datacenter = ''dc'',
          datastore = ''ds'', path = ''/a'', state = Absent, timeout = 10,
          validate_certs = True\<rparr>
        \<lparr>PY2 = False, check_mode = True,
         head_outcome = Response \<lparr>code = 200, msg = ''OK'',
                                  headers = [(''Content-Length'', ''12'')]\<rparr>,
         put_outcome = Response \<lparr>code = 201, msg = ''Created'', headers = []\<rparr>,
         delete_outcome = None, mkdir_outcome = None\<rparr>
      = Inr (True, 200,
             \<lparr>r_path = ''/a'', r_size = Some 12, r_state = Absent, r_status = None,
              r_url = ''https://vc/folder/a?dsName=ds&dcPath=dc'', r_reason = None\<rparr>)
   \<and> main
        \<lparr>host = ''vc'', username = ''u'', password = ''pw'', datacenter = ''dc'',
          datastore = ''ds'', path = ''/a'', state = Absent, timeout = 10,
          validate_certs = True\<rparr>
        \<lparr>PY2 = False, check_mode = True,
         head_outcome = Response \<lparr>code = 200, msg = ''OK'',
                                  headers = [(''Content-Length'', ''12'')]\<rparr>,
         put_outcome = Response \<lparr>code = 201, msg = ''Created'', headers = []\<rparr>,
         delete_outcome = None, mkdir_outcome = None\<rparr>
      = (ExitJson True
           \<lparr>r_path = ''/a'', r_size = Some 12, r_state = Absent, r_status = None,
            r_url = ''https://vc/folder/a?dsName=ds&dcPath=dc'', r_reason = None\<rparr>,
         [Head ''https://vc/folder/a?dsName=ds&dcPath=dc''])"
  by (simp add: main_def main_dispatch_def main_probe_def main_result_def url_eval int_eval header_eval)

text \<open>
  Claim C3. With the state \<open>file\<close> and a HEAD response 404, the invocation ends in
  \<^verbatim>\<open>fail_json\<close> with the message \<^verbatim>\<open>File '<path>' is absent, cannot continue\<close>, and it
  never ends in \<^verbatim>\<open>exit_json\<close>.
\<close>

theorem file_absent_fails:
  assumes "state p = File" and "head_outcome ev = Response r" and "code r = 404"
  shows "main p ev =
           (FailJson \<lparr>f_msg = ''File '' @ [CHR 0x27] @ path p @ [CHR 0x27]
                               @ '' is absent, cannot continue'',
                      f_errno = None, f_headers = None,
                      f_payload = \<lparr>r_path = path p, r_size = None, r_state = Absent,
                                   r_status = Some 404, r_url = main_url p ev,
                                   r_reason = None\<rparr>\<rparr>,
            [Head (main_url p ev)])
         \<and> (\<forall>c res. fst (main p ev) \<noteq> ExitJson c res)"
proof -
  have "main_probe p ev = Inr (False, 404, main_result p ev)"
    using assms(2,3) by (rule main_probe_404)
  then have "main p ev =
      (fst (main_dispatch p ev False 404 (main_result p ev)),
       Head (main_url p ev) # snd (main_dispatch p ev False 404 (main_result p ev)))"
    by (rule main_of_probe)
  then show ?thesis
    using assms(1) by (simp add: main_dispatch_def main_result_def)
qed

theorem file_absent_fails_witness:
  "main \<lparr>host = ''vc'', username = ''u'', password = ''pw'', datacenter = ''dc'',
          datastore = ''ds'', path = ''/a'', state = File, timeout = 10,
          validate_certs = True\<rparr>
        \<lparr>PY2 = False, check_mode = False,
         head_outcome = Response \<lparr>code = 404, msg = ''Not Found'', headers = []\<rparr>,
         put_outcome = Response \<lparr>code = 201, msg = ''Created'', headers = []\<rparr>,
         delete_outcome = None, mkdir_outcome = None\<rparr>
   = (FailJson \<lparr>f_msg = ''File '/a' is absent, cannot continue'',
                 f_errno = None, f_headers = None,
                 f_payload = \<lparr>r_path = ''/a'', r_size = None, r_state = Absent,
                              r_status = Some 404,
                              r_url = ''https://vc/folder/a?dsName=ds&dcPath=dc'',
                              r_reason = None\<rparr>\<rparr>,
      [Head ''https://vc/folder/a?dsName=ds&dcPath=dc''])"
  using file_absent_fails
    [of "\<lparr>host = ''vc'', username = ''u'', password = ''pw'', datacenter = ''dc'',
          datastore = ''ds'', path = ''/a'', state = File, timeout = 10,
          validate_certs = True\<rparr>"
        "\<lparr>PY2 = False, check_mode = False,
         head_outcome = Response \<lparr>code = 404, msg = ''Not Found'', headers = []\<rparr>,
         put_outcome = Response \<lparr>code = 201, msg = ''Created'', headers = []\<rparr>,
         delete_outcome = None, mkdir_outcome = None\<rparr>"
        "\<lparr>code = 404, msg = ''Not Found'', headers = []\<rparr>"]
  by (simp add: url_eval)

text \<open>
  Claim C2. With the state \<open>touch\<close>, a HEAD response 404 and no check mode, the calls
  are the HEAD request and one PUT request to the same URL; the invocation ends in
  \<^verbatim>\<open>exit_json\<close> exactly when the PUT gave a response of status 201; a response of any
  other status ends it in \<^verbatim>\<open>fail_json\<close>; and a result of \<^verbatim>\<open>exit_json\<close> has
  \<open>changed = True\<close>, size 0 and the state \<open>file\<close>.
\<close>

theorem touch_creates_with_put:
  assumes "state p = Touch" and "head_outcome ev = Response h" and "code h = 404"
    and "\<not> check_mode ev"
  shows "snd (main p ev) = [Head (main_url p ev), Put (main_url p ev)]
       \<and> ((\<exists>c res. fst (main p ev) = ExitJson c res)
            \<longleftrightarrow> (\<exists>r. put_outcome ev = Response r \<and> code r = 201))
       \<and> (\<forall>r. put_outcome ev = Response r \<longrightarrow> code r \<noteq> 201 \<longrightarrow>
             fst (main p ev) =
               FailJson \<lparr>f_msg = ''Failed to touch '' @ [CHR 0x27] @ path p @ [CHR 0x27],
                         f_errno = Some ErrnoNone,
                         f_headers = Some (headers_dict (PY2 ev) (headers r)),
                         f_payload = (main_result p ev)
                           \<lparr>r_reason := Some (msg r), r_status := Some (code r)\<rparr>\<rparr>)
       \<and> (\<forall>c res. fst (main p ev) = ExitJson c res \<longrightarrow>
             c \<and> r_size res = Some 0 \<and> r_state res = File)"
proof -
  have pr: "main_probe p ev = Inr (False, 404, main_result p ev)"
    using assms(2,3) by (rule main_probe_404)
  have u: "r_url (main_result p ev) = main_url p ev"
    by (simp add: main_result_def)
  show ?thesis
    unfolding main_of_probe [OF pr]
    using assms(1,4) u
    by (cases "put_outcome ev")
       (auto simp: main_dispatch_def fail_exn_def Let_def split: sum.splits)
qed

theorem touch_creates_with_put_witness:
  "main \<lparr>host = ''vc'', username = ''u'', password = ''pw'', datacenter = ''dc'',
          datastore = ''ds'', path = ''a/b'', state = Touch, timeout = 10,
          validate_certs = True\<rparr>
        \<lparr>PY2 = False, check_mode = False,
         head_outcome = Response \<lparr>code = 404, msg = ''Not Found'', headers = []\<rparr>,
         put_outcome = Response \<lparr>code = 200, msg = ''OK'', headers = []\<rparr>,
         delete_outcome = None, mkdir_outcome = None\<rparr>
   = (FailJson \<lparr>f_msg = ''Failed to touch 'a/b'' @ [CHR 0x27],
                 f_errno = Some ErrnoNone, f_headers = Some [],
                 f_payload = \<lparr>r_path = ''a/b'', r_size = None, r_state = Touch,
                     r_status = Some 200,
                     r_url = ''https://vc/folder/a/b?dsName=ds&dcPath=dc'',
                     r_reason = Some ''OK''\<rparr>\<rparr>,
      [Head ''https://vc/folder/a/b?dsName=ds&dcPath=dc'',
       Put ''https://vc/folder/a/b?dsName=ds&dcPath=dc''])"
proof -
  let ?p = "\<lparr>host = ''vc'', username = ''u'', password = ''pw'', datacenter = ''dc'',
          datastore = ''ds'', path = ''a/b'', state = Touch, timeout = 10,
          validate_certs = True\<rparr>"
  let ?ev = "\<lparr>PY2 = False, check_mode = False,
         head_outcome = Response \<lparr>code = 404, msg = ''Not Found'', headers = []\<rparr>,
         put_outcome = Response \<lparr>code = 200, msg = ''OK'', headers = []\<rparr>,
         delete_outcome = None, mkdir_outcome = None\<rparr>"
  have h: "state ?p = Touch"
      "head_outcome ?ev = Response \<lparr>code = 404, msg = ''Not Found'', headers = []\<rparr>"
      "code \<lparr>code = 404, msg = ''Not Found'', headers = []\<rparr> = 404"
      "\<not> check_mode ?ev"
    by simp_all
  have u: "main_url ?p ?ev = ''https://vc/folder/a/b?dsName=ds&dcPath=dc''"
    by (simp add: url_eval)
  show ?thesis
    using touch_creates_with_put [OF h] u by (simp add: prod_eq_iff main_result_def header_eval)
qed

text \<open>
  Claim C4, as amended. In check mode no delete, no mkdir and no PUT is issued: no
  call follows the HEAD request. Where a change is needed the result has
  \<open>changed = True\<close>; for the
  state \<open>touch\<close> it carries the status 201 and the reason \<^verbatim>\<open>Created\<close> (with size 0 and
  the state \<open>file\<close>), for \<open>absent\<close> and \<open>directory\<close> its status is \<^verbatim>\<open>None\<close> and it has
  no reason.
\<close>

theorem check_mode_never_mutates:
  assumes "check_mode ev"
  shows "snd (main p ev) = [Head (main_url p ev)]
       \<and> (\<forall>exists status res. main_probe p ev = Inr (exists, status, res) \<longrightarrow>
            (state p = Absent \<longrightarrow> exists \<longrightarrow>
               fst (main p ev) = ExitJson True res
               \<and> r_status res = None \<and> r_reason res = None)
          \<and> (state p = Directory \<longrightarrow> \<not> exists \<longrightarrow>
               fst (main p ev) = ExitJson True res
               \<and> r_status res = None \<and> r_reason res = None)
          \<and> (state p = Touch \<longrightarrow> \<not> exists \<longrightarrow>
               fst (main p ev) =
                 ExitJson True (res\<lparr>r_reason := Some ''Created'', r_status := Some 201,
                                      r_size := Some 0, r_state := File\<rparr>)))"
proof (cases "main_probe p ev")
  case (Inl out)
  then show ?thesis by (simp add: main_def)
next
  case (Inr t)
  obtain ex st res where t: "t = (ex, st, res)" by (cases t)
  have pr: "main_probe p ev = Inr (ex, st, res)" using Inr t by simp
  have fields: "r_status res = None \<and> r_reason res = None"
    using main_probe_Inr [OF pr] by simp
  show ?thesis
    unfolding main_of_probe [OF pr]
    using assms fields pr by (cases "state p") (simp_all add: main_dispatch_def)
qed

theorem check_mode_never_mutates_witness:
  "main \<lparr>host = ''vc'', username = ''u'', password = ''pw'', datacenter = ''dc'',
          datastore = ''ds'', path = ''/a'', state = Touch, timeout = 10,
          validate_certs = True\<rparr>
        \<lparr>PY2 = False, check_mode = True,
         head_outcome = Response \<lparr>code = 404, msg = ''Not Found'', headers = []\<rparr>,
         put_outcome = Response \<lparr>code = 500, msg = ''Error'', headers = []\<rparr>,
         delete_outcome = None, mkdir_outcome = None\<rparr>
   = (ExitJson True \<lparr>r_path = ''/a'', r_size = Some 0, r_state = File,
                     r_status = Some 201,
                     r_url = ''https://vc/folder/a?dsName=ds&dcPath=dc'',
                     r_reason = Some ''Created''\<rparr>,
      [Head ''https://vc/folder/a?dsName=ds&dcPath=dc''])"
proof -
  let ?p = "\<lparr>host = ''vc'', username = ''u'', password = ''pw'', datacenter = ''dc'',
          datastore = ''ds'', path = ''/a'', state = Touch, timeout = 10,
          validate_certs = True\<rparr>"
  let ?ev = "\<lparr>PY2 = False, check_mode = True,
         head_outcome = Response \<lparr>code = 404, msg = ''Not Found'', headers = []\<rparr>,
         put_outcome = Response \<lparr>code = 500, msg = ''Error'', headers = []\<rparr>,
         delete_outcome = None, mkdir_outcome = None\<rparr>"
  let ?res = "\<lparr>r_path = ''/a'', r_size = None, r_state = Touch,
                     r_status = None,
                     r_url = ''https://vc/folder/a?dsName=ds&dcPath=dc'',
                     r_reason = None\<rparr>"
  have c: "check_mode ?ev" by simp
  have pr: "main_probe ?p ?ev = Inr (False, 404, ?res)"
    by (simp add: main_probe_def main_result_def url_eval)
  have u: "main_url ?p ?ev = ''https://vc/folder/a?dsName=ds&dcPath=dc''"
    by (simp add: url_eval)
  show ?thesis
    using check_mode_never_mutates [OF c, of ?p] pr u by (auto simp: prod_eq_iff)
qed

text \<open>
  Claim C4 as it is stated fails for the state \<open>directory\<close> on a missing path in check
  mode: the result has \<open>changed = True\<close>, the status \<^verbatim>\<open>None\<close> and no reason.
\<close>

theorem directory_check_mode_counterexample:
  "check_mode \<lparr>PY2 = False, check_mode = True,
         head_outcome = Response \<lparr>code = 404, msg = ''Not Found'', headers = []\<rparr>,
         put_outcome = Response \<lparr>code = 201, msg = ''Created'', headers = []\<rparr>,
         delete_outcome = None, mkdir_outcome = None\<rparr>
   \<and> main
        \<lparr>host = ''vc'', username = ''u'', password = ''pw'', datacenter = ''dc'',
          datastore = ''ds'', path = ''/a'', state = Directory, timeout = 10,
          validate_certs = True\<rparr>
        \<lparr>PY2 = False, check_mode = True,
         head_outcome = Response \<lparr>code = 404, msg = ''Not Found'', headers = []\<rparr>,
         put_outcome = Response \<lparr>code = 201, msg = ''Created'', headers = []\<rparr>,
         delete_outcome = None, mkdir_outcome = None\<rparr>
      = (ExitJson True
           \<lparr>r_path = ''/a'', r_size = None, r_state = Directory, r_status = None,
            r_url = ''https://vc/folder/a?dsName=ds&dcPath=dc'', r_reason = None\<rparr>,
         [Head ''https://vc/folder/a?dsName=ds&dcPath=dc''])"
  by (simp add: main_def main_dispatch_def main_probe_def main_result_def url_eval)

text \<open>
  Claim C5, at a failing input. On Python 3 the file exists, the delete is issued and
  \<^verbatim>\<open>wait_for_task\<close> raises: the handler of line 250 evaluates \<^verbatim>\<open>e[0]\<close>, which raises
  TypeError, so the invocation ends in an exception that nothing catches and
  \<^verbatim>\<open>fail_json\<close> is not called. The handler of line 262 does the same for mkdir.
\<close>

theorem mutation_failure_unhandled_on_python3:
  "main \<lparr>host = ''vc'', username = ''u'', password = ''pw'', datacenter = ''dc'',
          datastore = ''ds'', path = ''a/b'', state = Absent, timeout = 10,
          validate_certs = True\<rparr>
        \<lparr>PY2 = False, check_mode = False,
         head_outcome = Response \<lparr>code = 200, msg = ''OK'',
                                  headers = [(''Content-Length'', ''12'')]\<rparr>,
         put_outcome = Response \<lparr>code = 201, msg = ''Created'', headers = []\<rparr>,
         delete_outcome = Some \<lparr>exn_args = [PyStr ''File is locked''],
                                exn_text = ''File is locked''\<rparr>,
         mkdir_outcome = None\<rparr>
   = (Unhandled TypeError,
      [Head ''https://vc/folder/a/b?dsName=ds&dcPath=dc'', DeleteFile ''[ds] a/b''])
   \<and> main \<lparr>host = ''vc'', username = ''u'', password = ''pw'', datacenter = ''dc'',
          datastore = ''ds'', path = ''a/b'', state = Directory, timeout = 10,
          validate_certs = True\<rparr>
        \<lparr>PY2 = False, check_mode = False,
         head_outcome = Response \<lparr>code = 404, msg = ''Not Found'', headers = []\<rparr>,
         put_outcome = Response \<lparr>code = 201, msg = ''Created'', headers = []\<rparr>,
         delete_outcome = None,
         mkdir_outcome = Some \<lparr>exn_args = [PyStr ''Permission denied''],
                               exn_text = ''Permission denied''\<rparr>\<rparr>
   = (Unhandled TypeError,
      [Head ''https://vc/folder/a/b?dsName=ds&dcPath=dc'', MakeDirectory ''[ds] a/b''])"
  by (simp add: main_def main_dispatch_def main_probe_def main_result_def fail_exn_def
        exn_item0_def url_eval int_eval header_eval)

section \<open>The probe\<close>

text \<open>
  Claim C6, at two failing inputs. A HEAD response 200 without a \<^verbatim>\<open>content-length\<close>
  header makes line 234 evaluate \<^verbatim>\<open>int(None)\<close>, a TypeError that nothing catches; the
  header value \<^verbatim>\<open>abc\<close> makes it a ValueError.
\<close>

theorem malformed_content_length_unhandled:
  "main \<lparr>host = ''vc'', username = ''u'', password = ''pw'', datacenter = ''dc'',
          datastore = ''ds'', path = ''a/b'', state = File, timeout = 10,
          validate_certs = True\<rparr>
        \<lparr>PY2 = False, check_mode = False,
         head_outcome = Response \<lparr>code = 200, msg = ''OK'', headers = []\<rparr>,
         put_outcome = Response \<lparr>code = 201, msg = ''Created'', headers = []\<rparr>,
         delete_outcome = None, mkdir_outcome = None\<rparr>
   = (Unhandled TypeError, [Head ''https://vc/folder/a/b?dsName=ds&dcPath=dc''])
   \<and> main \<lparr>host = ''vc'', username = ''u'', password = ''pw'', datacenter = ''dc'',
          datastore = ''ds'', path = ''a/b'', state = File, timeout = 10,
          validate_certs = True\<rparr>
        \<lparr>PY2 = False, check_mode = False,
         head_outcome = Response \<lparr>code = 200, msg = ''OK'',
                                  headers = [(''Content-Length'', ''abc'')]\<rparr>,
         put_outcome = Response \<lparr>code = 201, msg = ''Created'', headers = []\<rparr>,
         delete_outcome = None, mkdir_outcome = None\<rparr>
   = (Unhandled ValueError, [Head ''https://vc/folder/a/b?dsName=ds&dcPath=dc''])"
  by (simp add: main_def main_probe_def main_result_def url_eval int_eval header_eval)

text \<open>
  Claim C7. A HEAD response whose status is neither 200 nor 404 ends the invocation in
  \<^verbatim>\<open>fail_json\<close> with the message \<^verbatim>\<open>Failed to query for file '<path>'\<close>, the headers
  of the response, and a payload whose reason and status are the message and the
  status of the response; no call follows the HEAD request.
\<close>

theorem probe_unexpected_status_fails:
  assumes "head_outcome ev = Response r" and "code r \<noteq> 200" and "code r \<noteq> 404"
  shows "main p ev =
           (FailJson \<lparr>f_msg = ''Failed to query for file '' @ [CHR 0x27] @ path p @ [CHR 0x27],
                      f_errno = Some ErrnoNone,
                      f_headers = Some (headers_dict (PY2 ev) (headers r)),
                      f_payload = (main_result p ev)
                        \<lparr>r_reason := Some (msg r), r_status := Some (code r)\<rparr>\<rparr>,
            [Head (main_url p ev)])"
  using assms by (simp add: main_def main_probe_def)

theorem probe_unexpected_status_fails_witness:
  "main \<lparr>host = ''vc'', username = ''u'', password = ''pw'', datacenter = ''dc'',
          datastore = ''ds'', path = ''a/b'', state = Absent, timeout = 10,
          validate_certs = True\<rparr>
        \<lparr>PY2 = False, check_mode = False,
         head_outcome = Response \<lparr>code = 500, msg = ''Internal Server Error'',
                                  headers = [(''Connection'', ''close'')]\<rparr>,
         put_outcome = Response \<lparr>code = 201, msg = ''Created'', headers = []\<rparr>,
         delete_outcome = None, mkdir_outcome = None\<rparr>
   = (FailJson \<lparr>f_msg = ''Failed to query for file 'a/b'' @ [CHR 0x27],
                 f_errno = Some ErrnoNone, f_headers = Some [(''Connection'', ''close'')],
                 f_payload = \<lparr>r_path = ''a/b'', r_size = None, r_state = Absent,
                     r_status = Some 500,
                     r_url = ''https://vc/folder/a/b?dsName=ds&dcPath=dc'',
                     r_reason = Some ''Internal Server Error''\<rparr>\<rparr>,
      [Head ''https://vc/folder/a/b?dsName=ds&dcPath=dc''])"
  using probe_unexpected_status_fails
    [of "\<lparr>PY2 = False, check_mode = False,
         head_outcome = Response \<lparr>code = 500, msg = ''Internal Server Error'',
                                  headers = [(''Connection'', ''close'')]\<rparr>,
         put_outcome = Response \<lparr>code = 201, msg = ''Created'', headers = []\<rparr>,
         delete_outcome = None, mkdir_outcome = None\<rparr>"
        "\<lparr>code = 500, msg = ''Internal Server Error'',
                                  headers = [(''Connection'', ''close'')]\<rparr>"
        "\<lparr>host = ''vc'', username = ''u'', password = ''pw'', datacenter = ''dc'',
          datastore = ''ds'', path = ''a/b'', state = Absent, timeout = 10,
          validate_certs = True\<rparr>"]
  by (simp add: main_result_def url_eval header_eval)

section \<open>The fields of the result\<close>

text \<open>
  Claim C10. With the state \<open>file\<close> and a HEAD response 404, the payload of the failure
  has the state \<open>absent\<close> where the initial result had \<open>file\<close>, and its status is the
  status of the HEAD response. In every \<^verbatim>\<open>exit_json\<close> result and every \<^verbatim>\<open>fail_json\<close>
  payload, the path is the parameter and the URL is the one built from the
  parameters.
\<close>

theorem result_path_url_frame:
  "(state p = File \<longrightarrow> head_outcome ev = Response r \<longrightarrow> code r = 404 \<longrightarrow>
      r_state (main_result p ev) = File
      \<and> (\<exists>f. fst (main p ev) = FailJson f
             \<and> r_state (f_payload f) = Absent
             \<and> r_status (f_payload f) = Some (code r)))
   \<and> (\<forall>c res. fst (main p ev) = ExitJson c res \<longrightarrow>
          r_path res = path p \<and> r_url res = main_url p ev)
   \<and> (\<forall>f. fst (main p ev) = FailJson f \<longrightarrow>
          r_path (f_payload f) = path p \<and> r_url (f_payload f) = main_url p ev)"
proof (intro conjI impI allI)
  assume a: "state p = File" "head_outcome ev = Response r" "code r = 404"
  then show "r_state (main_result p ev) = File"
    by (simp add: main_result_def)
  have pr: "main_probe p ev = Inr (False, 404, main_result p ev)"
    using a(2,3) by (rule main_probe_404)
  show "\<exists>f. fst (main p ev) = FailJson f \<and> r_state (f_payload f) = Absent
          \<and> r_status (f_payload f) = Some (code r)"
    unfolding main_of_probe [OF pr] using a by (simp add: main_dispatch_def)
next
  fix c res
  assume e: "fst (main p ev) = ExitJson c res"
  show "r_path res = path p" "r_url res = main_url p ev"
  proof -
    have "r_path res = path p \<and> r_url res = main_url p ev"
    proof (cases "main_probe p ev")
      case (Inl out)
      then show ?thesis using e main_probe_Inl_Exit [of p ev c res]
        by (simp add: main_def)
    next
      case (Inr t)
      obtain ex st rs where pr: "main_probe p ev = Inr (ex, st, rs)"
        using Inr by (cases t) simp
      have "fst (main_dispatch p ev ex st rs) = ExitJson c res"
        using e unfolding main_of_probe [OF pr] by simp
      then show ?thesis
        using main_probe_Inr [OF pr] main_dispatch_Exit by blast
    qed
    then show "r_path res = path p" "r_url res = main_url p ev" by simp_all
  qed
next
  fix f
  assume e: "fst (main p ev) = FailJson f"
  have "r_path (f_payload f) = path p \<and> r_url (f_payload f) = main_url p ev"
  proof (cases "main_probe p ev")
    case (Inl out)
    then show ?thesis using e main_probe_Inl_Fail [of p ev f]
      by (simp add: main_def)
  next
    case (Inr t)
    obtain ex st rs where pr: "main_probe p ev = Inr (ex, st, rs)"
      using Inr by (cases t) simp
    have "fst (main_dispatch p ev ex st rs) = FailJson f"
      using e unfolding main_of_probe [OF pr] by simp
    then show ?thesis
      using main_probe_Inr [OF pr] main_dispatch_Fail by blast
  qed
  then show "r_path (f_payload f) = path p" "r_url (f_payload f) = main_url p ev"
    by simp_all
qed

theorem result_path_url_frame_witness:
  "r_state (main_result
        \<lparr>host = ''vc'', username = ''u'', password = ''pw'', datacenter = ''dc'',
          datastore = ''ds'', path = ''a/b'', state = File, timeout = 10,
          validate_certs = True\<rparr>
        \<lparr>PY2 = False, check_mode = False,
         head_outcome = Response \<lparr>code = 404, msg = ''Not Found'', headers = []\<rparr>,
         put_outcome = Response \<lparr>code = 201, msg = ''Created'', headers = []\<rparr>,
         delete_outcome = None, mkdir_outcome = None\<rparr>) = File
   \<and> fst (main
        \<lparr>host = ''vc'', username = ''u'', password = ''pw'', datacenter = ''dc'',
          datastore = ''ds'', path = ''a/b'', state = File, timeout = 10,
          validate_certs = True\<rparr>
        \<lparr>PY2 = False, check_mode = False,
         head_outcome = Response \<lparr>code = 404, msg = ''Not Found'', headers = []\<rparr>,
         put_outcome = Response \<lparr>code = 201, msg = ''Created'', headers = []\<rparr>,
         delete_outcome = None, mkdir_outcome = None\<rparr>)
     = FailJson \<lparr>f_msg = ''File 'a/b' is absent, cannot continue'',
                 f_errno = None, f_headers = None,
                 f_payload = \<lparr>r_path = ''a/b'', r_size = None, r_state = Absent,
                     r_status = Some 404,
                     r_url = ''https://vc/folder/a/b?dsName=ds&dcPath=dc'',
                     r_reason = None\<rparr>\<rparr>"
proof -
  let ?p = "\<lparr>host = ''vc'', username = ''u'', password = ''pw'', datacenter = ''dc'',
          datastore = ''ds'', path = ''a/b'', state = File, timeout = 10,
          validate_certs = True\<rparr>"
  let ?ev = "\<lparr>PY2 = False, check_mode = False,
         head_outcome = Response \<lparr>code = 404, msg = ''Not Found'', headers = []\<rparr>,
         put_outcome = Response \<lparr>code = 201, msg = ''Created'', headers = []\<rparr>,
         delete_outcome = None, mkdir_outcome = None\<rparr>"
  let ?r = "\<lparr>code = 404, msg = ''Not Found'', headers = []\<rparr>"
  have u: "main_url ?p ?ev = ''https://vc/folder/a/b?dsName=ds&dcPath=dc''"
    by (simp add: url_eval)
  have m: "fst (main ?p ?ev) = FailJson \<lparr>f_msg = ''File 'a/b' is absent, cannot continue'',
                 f_errno = None, f_headers = None,
                 f_payload = \<lparr>r_path = ''a/b'', r_size = None, r_state = Absent,
                     r_status = Some 404,
                     r_url = main_url ?p ?ev,
                     r_reason = None\<rparr>\<rparr>"
    by (simp add: main_def main_probe_def main_dispatch_def main_result_def)
  from result_path_url_frame [of ?p ?ev ?r]
  have "r_state (main_result ?p ?ev) = File"
     and "\<forall>f. fst (main ?p ?ev) = FailJson f \<longrightarrow>
          r_path (f_payload f) = path ?p \<and> r_url (f_payload f) = main_url ?p ?ev"
    by simp_all
  then show ?thesis using m u by simp
qed

section \<open>The URL of the HTTP endpoint\<close>

text \<open>
  Claim C8. For a datacenter name that contains \<^verbatim>\<open>&\<close>, the value of the \<^verbatim>\<open>dcPath\<close>
  parameter is the name with each \<^verbatim>\<open>&\<close> written \<^verbatim>\<open>%2526\<close>, which is \<^verbatim>\<open>&\<close> encoded
  twice, and every other character encoded once, as \<^verbatim>\<open>quote_plus\<close> encodes it; the
  value of \<^verbatim>\<open>dsName\<close> is the datastore encoded once. Python 3 writes \<^verbatim>\<open>dsName\<close> first,
  Python 2 \<^verbatim>\<open>dcPath\<close>.
\<close>

theorem vmware_path_double_encodes_ampersand:
  assumes "CHR ''&'' \<in> set dc"
  shows "vmware_path py2 ds dc pth =
           ''/folder/'' @ quote py2 ''/'' (strip_slash pth) @ ''?'' @
           (if py2 then
              ''dcPath='' @
              concat (map (\<lambda>c. if c = CHR ''&'' then ''%2526'' else quote_plus py2 [c])
                        dc)
              @ ''&dsName='' @ quote_plus py2 ds
            else
              ''dsName='' @ quote_plus py2 ds @ ''&dcPath='' @
              concat (map (\<lambda>c. if c = CHR ''&'' then ''%2526'' else quote_plus py2 [c])
                        dc))
         \<and> quote_plus py2 ''&'' = ''%26''
         \<and> quote_plus py2 (quote_plus py2 ''&'') = ''%2526''"
proof -
  have ne: "dc \<noteq> []" using assms by auto
  then have "replace_char (CHR ''&'') ''%26'' dc \<noteq> []"
    by (simp add: replace_char_Nil_iff)
  then have "vmware_path py2 ds dc pth =
           ''/folder/'' @ quote py2 ''/'' (strip_slash pth) @ ''?'' @
           (if py2 then
              ''dcPath='' @ quote_plus py2 (replace_char (CHR ''&'') ''%26'' dc)
              @ ''&dsName='' @ quote_plus py2 ds
            else
              ''dsName='' @ quote_plus py2 ds @ ''&dcPath='' @
              quote_plus py2 (replace_char (CHR ''&'') ''%26'' dc))"
    by (simp add: vmware_path_def Let_def startswith_def urlencode_def
          quote_plus_dsName quote_plus_dcPath)
  then have "vmware_path py2 ds dc pth =
           ''/folder/'' @ quote py2 ''/'' (strip_slash pth) @ ''?'' @
           (if py2 then
              ''dcPath='' @
              concat (map (\<lambda>c. if c = CHR ''&'' then ''%2526'' else quote_plus py2 [c]) dc)
              @ ''&dsName='' @ quote_plus py2 ds
            else
              ''dsName='' @ quote_plus py2 ds @ ''&dcPath='' @
              concat (map (\<lambda>c. if c = CHR ''&'' then ''%2526'' else quote_plus py2 [c]) dc))"
    by (simp only: quote_plus_replaced)
  moreover have "quote_plus py2 (quote_plus py2 ''&'') = ''%2526''"
    by (simp only: quote_plus_ampersand quote_plus_percent_26)
  ultimately show ?thesis
    using quote_plus_ampersand [of py2] by (intro conjI)
qed

theorem vmware_path_double_encodes_ampersand_witness:
  "CHR ''&'' \<in> set ''R&D 1''
   \<and> vmware_path False ''ds 1'' ''R&D 1'' ''/iso/a b.iso'' =
       ''/folder/iso/a%20b.iso?dsName=ds+1&dcPath=R%2526D+1''"
  using vmware_path_double_encodes_ampersand [of "''R&D 1''" False "''ds 1''" "''/iso/a b.iso''"]
  by (simp add: quote_def quote_char_def always_safe_def percent_def hex_digit_def
        strip_slash_def quote_plus_def replace_char_def)

text \<open>
  Claim C9. The part of the result before its first \<^verbatim>\<open>?\<close> is \<^verbatim>\<open>/folder/\<close> followed by
  the encoding of the stripped path; in that encoding every \<^verbatim>\<open>/\<close> stays a \<^verbatim>\<open>/\<close> and
  every other character is encoded as without any safe character; the stripped path
  is the input without the slashes at its two ends, and has a slash at neither end.
\<close>

theorem vmware_path_folder_prefix:
  "takeWhile (\<lambda>c. c \<noteq> CHR ''?'') (vmware_path py2 ds dc pth) =
     ''/folder/'' @ quote py2 ''/'' (strip_slash pth)
   \<and> quote py2 ''/'' (strip_slash pth) =
       concat (map (\<lambda>c. if c = CHR ''/'' then ''/'' else quote py2 [] [c]) (strip_slash pth))
   \<and> (\<exists>m n. pth = replicate m (CHR ''/'') @ strip_slash pth @ replicate n (CHR ''/''))
   \<and> \<not> startswith (strip_slash pth) ''/''
   \<and> \<not> startswith (rev (strip_slash pth)) ''/''"
proof (intro conjI)
  obtain query where q: "vmware_path py2 ds dc pth =
      (''/folder/'' @ quote py2 ''/'' (strip_slash pth)) @ CHR ''?'' # query"
    using vmware_path_split by blast
  have "CHR ''?'' \<notin> set (''/folder/'' @ quote py2 ''/'' (strip_slash pth))"
    using quote_no_question [of py2 "strip_slash pth"] by simp
  then have "takeWhile (\<lambda>c. c \<noteq> CHR ''?'')
        ((''/folder/'' @ quote py2 ''/'' (strip_slash pth)) @ CHR ''?'' # query) =
      ''/folder/'' @ quote py2 ''/'' (strip_slash pth)"
    by (rule takeWhile_until)
  then show "takeWhile (\<lambda>c. c \<noteq> CHR ''?'') (vmware_path py2 ds dc pth) =
     ''/folder/'' @ quote py2 ''/'' (strip_slash pth)"
    by (simp only: q)
next
  show "quote py2 ''/'' (strip_slash pth) =
       concat (map (\<lambda>c. if c = CHR ''/'' then ''/'' else quote py2 [] [c]) (strip_slash pth))"
    by (rule quote_slash_map)
next
  show "\<exists>m n. pth = replicate m (CHR ''/'') @ strip_slash pth @ replicate n (CHR ''/'')"
    by (rule strip_slash_decompose)
next
  show "\<not> startswith (strip_slash pth) ''/''" by (rule strip_slash_no_leading)
next
  show "\<not> startswith (rev (strip_slash pth)) ''/''" by (rule strip_slash_no_trailing)
qed

end
